theory Spec2Isabelle
  imports
    Complex_Main
    "HOL-Library.Char_ord"
    "HOL-Library.List_Lexorder"
    "HOL-Library.Product_Lexorder"
begin

section \<open>FacebookConversationAnalysis: a shallow embedding\<close>

text \<open>
  The program is one Python class, \<^verbatim>\<open>FacebookConversationAnalysis\<close>. Its methods are
  embedded below under their own names. Python exceptions are values of \<open>error\<close> and a
  method that may raise returns \<open>error + 'a\<close>. The console and the files the program
  touches are the fields of the record \<open>world\<close>, which every printing or file-accessing
  method takes and returns.

  Text is \<open>string\<close>: a character is its code point, so the model covers the texts whose
  code points are below 256. The quotients of lines 89, 99 and 122 have their exact
  rational values in \<open>msgs_percentage\<close>, \<open>avg_words_per_msg\<close> and \<open>avg_messages_per_day\<close>;
  what the program prints is the float, which is the exact value rounded to binary64 at
  each operation of the expression, and then rounded to two decimals.
\<close>

subsection \<open>Exceptions\<close>

datatype error =
    FileNotFoundError
  | PermissionError
  | OSError
  | UnicodeDecodeError
  | UnpicklingError
  | AttributeError
  | ValueError
  | IndexError
  | ZeroDivisionError

subsection \<open>Python's built-in string operations\<close>

text \<open>\<^verbatim>\<open>str.isspace\<close> on one character, for the code points below 256.\<close>

definition isspace :: "char \<Rightarrow> bool" where
  "isspace c = ((of_char c :: nat) \<in> set [9, 10, 11, 12, 13, 28, 29, 30, 31, 32, 133, 160])"

text \<open>
  \<^verbatim>\<open>str.split()\<close> with no argument: the maximal runs of non-whitespace characters, in
  order. \<open>cur\<close> is the run read so far, reversed.
\<close>

fun split_run :: "string \<Rightarrow> string \<Rightarrow> string list" where
  "split_run cur [] = (if cur = [] then [] else [rev cur])"
| "split_run cur (c # cs) =
     (if isspace c then (if cur = [] then [] else [rev cur]) @ split_run [] cs
      else split_run (c # cur) cs)"

definition str_split :: "string \<Rightarrow> string list" where
  "str_split s = split_run [] s"

text \<open>\<^verbatim>\<open>s.replace(old, "")\<close> for a non-empty \<open>old\<close>: every occurrence, left to right.\<close>

function str_remove :: "string \<Rightarrow> string \<Rightarrow> string" where
  "str_remove old s =
     (if s = [] then []
      else if old \<noteq> [] \<and> take (length old) s = old
        then str_remove old (drop (length old) s)
      else hd s # str_remove old (tl s))"
  by pat_completeness auto
termination
  by (relation "measure (\<lambda>(old, s). length s)") (auto simp: neq_Nil_conv)

declare str_remove.simps [simp del]

text \<open>
  \<^verbatim>\<open>str.title()\<close> for ASCII text: a letter that follows a letter is lowered, any other
  letter is raised. The program applies it to the four unit names only.
\<close>

definition is_upper :: "char \<Rightarrow> bool" where
  "is_upper c = (65 \<le> (of_char c :: nat) \<and> (of_char c :: nat) \<le> 90)"

definition is_lower :: "char \<Rightarrow> bool" where
  "is_lower c = (97 \<le> (of_char c :: nat) \<and> (of_char c :: nat) \<le> 122)"

definition to_upper :: "char \<Rightarrow> char" where
  "to_upper c = (if is_lower c then char_of ((of_char c :: nat) - 32) else c)"

definition to_lower :: "char \<Rightarrow> char" where
  "to_lower c = (if is_upper c then char_of ((of_char c :: nat) + 32) else c)"

fun title_from :: "bool \<Rightarrow> string \<Rightarrow> string" where
  "title_from prev [] = []"
| "title_from prev (c # cs) =
     (if prev then to_lower c else to_upper c) # title_from (is_upper c \<or> is_lower c) cs"

definition str_title :: "string \<Rightarrow> string" where
  "str_title s = title_from False s"

subsection \<open>Formatting numbers\<close>

definition digit_char :: "nat \<Rightarrow> char" where
  "digit_char d = char_of (48 + d)"

text \<open>\<^verbatim>\<open>'{}'.format(n)\<close> for a natural number.\<close>

fun str_nat :: "nat \<Rightarrow> string" where
  "str_nat n = (if n < 10 then [digit_char n] else str_nat (n div 10) @ [digit_char (n mod 10)])"

declare str_nat.simps [simp del]

text \<open>\<^verbatim>\<open>'%02d' % n\<close>, as \<^verbatim>\<open>strftime\<close> pads days, months, hours and minutes.\<close>

definition pad2 :: "nat \<Rightarrow> string" where
  "pad2 n = (if n < 10 then ''0'' @ str_nat n else str_nat n)"

text \<open>Rounding to the nearest integer, a tie going to the even one.\<close>

definition round_half_even :: "rat \<Rightarrow> int" where
  "round_half_even q =
     (let f = \<lfloor>q\<rfloor>; r = q - of_int f
      in if r < 1 / 2 then f
         else if 1 / 2 < r then f + 1
         else if even f then f else f + 1)"

text \<open>
  Floats. A float is kept as the rational it holds. \<open>binary64 q\<close> is the float nearest to
  the rational \<open>q\<close>, a tie going to the even significand, as \<^verbatim>\<open>a / b\<close> on integers and
  \<^verbatim>\<open>x * 100\<close> on floats round their exact results: the last place of a float of
  magnitude \<open>2 ^ e\<close> or more and less than \<open>2 ^ (e + 1)\<close> is \<open>2 ^ (e - 52)\<close>, and
  \<open>2 ^ (- 1074)\<close> below \<open>2 ^ (- 1022)\<close>. \<open>bit_length\<close> is \<^verbatim>\<open>int.bit_length\<close>, and
  \<open>floor_log2 q\<close> is the \<open>e\<close> of a positive \<open>q\<close>. A quotient of \<open>2 ^ 1024\<close> or more, where
  Python raises \<^verbatim>\<open>OverflowError\<close>, needs a list of that many elements and is left out.
\<close>

function bit_length :: "int \<Rightarrow> int" where
  "bit_length a = (if a \<le> 0 then 0 else 1 + bit_length (a div 2))"
  by pat_completeness auto
termination
  by (relation "measure nat") auto

declare bit_length.simps [simp del]

definition floor_log2 :: "rat \<Rightarrow> int" where
  "floor_log2 q =
     (if 1 \<le> q then bit_length \<lfloor>q\<rfloor> - 1 else - bit_length (\<lceil>1 / q\<rceil> - 1))"

definition pow2 :: "int \<Rightarrow> rat" where
  "pow2 k = (if 0 \<le> k then 2 ^ nat k else 1 / 2 ^ nat (- k))"

definition binary64 :: "rat \<Rightarrow> rat" where
  "binary64 q =
     (if q = 0 then 0
      else (let e = max (floor_log2 \<bar>q\<bar>) (- 1022);
                m = round_half_even (\<bar>q\<bar> * pow2 (52 - e))
            in sgn q * of_int m * pow2 (e - 52)))"

text \<open>
  \<^verbatim>\<open>'{:.2f}'.format(x)\<close> for a float \<open>x\<close> with the sign bit \<open>neg\<close> and the magnitude \<open>m\<close>:
  the two decimals nearest to \<open>m\<close>, a tie going to the even one, behind the sign (a
  negative zero prints as \<^verbatim>\<open>-0.00\<close>). \<open>format_2f q\<close> is that for the float nearest to \<open>q\<close>,
  a zero being positive.
\<close>

definition float_2f :: "bool \<Rightarrow> rat \<Rightarrow> string" where
  "float_2f neg m =
     (let n = nat (round_half_even (m * 100))
      in (if neg then ''-'' else []) @ str_nat (n div 100) @ ''.'' @ pad2 (n mod 100))"

definition format_2f :: "rat \<Rightarrow> string" where
  "format_2f q = float_2f (q < 0) (binary64 \<bar>q\<bar>)"

subsection \<open>Dates: the parts of \<^verbatim>\<open>datetime\<close>, \<^verbatim>\<open>calendar\<close> and \<^verbatim>\<open>dateutil\<close> the program calls\<close>

text \<open>
  A \<^verbatim>\<open>datetime\<close> object, to the minute. The library keeps \<open>1 \<le> year \<le> 9999\<close>, a month
  in \<open>1..12\<close> and a day of that month; \<open>valid_date\<close> is that range check, which
  \<^verbatim>\<open>datetime(...)\<close> and \<^verbatim>\<open>replace\<close> answer with \<^verbatim>\<open>ValueError\<close>.
\<close>

record datetime =
  year :: int
  month :: int
  day :: int
  hour :: int
  minute :: int

definition isleap :: "int \<Rightarrow> bool" where
  "isleap y = (y mod 4 = 0 \<and> (y mod 100 \<noteq> 0 \<or> y mod 400 = 0))"

text \<open>\<^verbatim>\<open>calendar.monthrange(y, m)[1]\<close>: the number of days of month \<open>m\<close> of year \<open>y\<close>.\<close>

definition days_in_month :: "int \<Rightarrow> int \<Rightarrow> int" where
  "days_in_month y m =
     (if m = 2 then (if isleap y then 29 else 28)
      else if m \<in> set [4, 6, 9, 11] then 30 else 31)"

definition valid_date :: "int \<Rightarrow> int \<Rightarrow> int \<Rightarrow> bool" where
  "valid_date y m d =
     (1 \<le> y \<and> y \<le> 9999 \<and> 1 \<le> m \<and> m \<le> 12 \<and> 1 \<le> d \<and> d \<le> days_in_month y m)"

text \<open>Comparison of two \<^verbatim>\<open>datetime\<close> objects: lexicographic on the fields.\<close>

definition dt_less :: "datetime \<Rightarrow> datetime \<Rightarrow> bool" where
  "dt_less a b =
     ((year a, month a, day a, hour a, minute a) < (year b, month b, day b, hour b, minute b))"

text \<open>
  \<^verbatim>\<open>date.toordinal()\<close>: the days before the year, the days before the month, the day.
\<close>

definition days_before_year :: "int \<Rightarrow> int" where
  "days_before_year y = (y - 1) * 365 + (y - 1) div 4 - (y - 1) div 100 + (y - 1) div 400"

definition days_before_month :: "int \<Rightarrow> int \<Rightarrow> int" where
  "days_before_month y m = (\<Sum>k \<leftarrow> [1 ..< nat m]. days_in_month y (int k))"

definition toordinal :: "datetime \<Rightarrow> int" where
  "toordinal a = days_before_year (year a) + days_before_month (year a) (month a) + day a"

text \<open>
  \<^verbatim>\<open>(a - b).days\<close> for two \<^verbatim>\<open>datetime\<close> objects: the whole days of the difference, rounded
  down.
\<close>

definition delta_days :: "datetime \<Rightarrow> datetime \<Rightarrow> int" where
  "delta_days a b =
     ((toordinal a - toordinal b) * 1440 + (hour a - hour b) * 60 + (minute a - minute b))
       div 1440"

text \<open>\<^verbatim>\<open>strftime\<close> with the program's two output formats, \<^verbatim>\<open>'%d/%m/%y'\<close> and \<^verbatim>\<open>'%H:%M'\<close>.\<close>

definition strftime_date :: "datetime \<Rightarrow> string" where
  "strftime_date a =
     pad2 (nat (day a)) @ ''/'' @ pad2 (nat (month a)) @ ''/'' @ pad2 (nat (year a mod 100))"

definition strftime_time :: "datetime \<Rightarrow> string" where
  "strftime_time a = pad2 (nat (hour a)) @ '':'' @ pad2 (nat (minute a))"

text \<open>
  \<^verbatim>\<open>datetime.strptime(s, '%d/%m/%y')\<close>. The format compiles to the regular expression
  \<^verbatim>\<open>(3[0-1]|[1-2]\d|0[1-9]|[1-9]| [1-9])/(1[0-2]|0[1-9]|[1-9])/(\d\d)\<close>, which has to match
  the whole of \<open>s\<close>; a two-digit year up to 68 is of this century, a later one of the last;
  the date has to exist.
\<close>

definition is_digit :: "char \<Rightarrow> bool" where
  "is_digit c = (48 \<le> (of_char c :: nat) \<and> (of_char c :: nat) \<le> 57)"

definition digit_val :: "char \<Rightarrow> int" where
  "digit_val c = int (of_char c) - 48"

definition parse_day :: "string \<Rightarrow> int option" where
  "parse_day s =
     (case s of
        [a, b] \<Rightarrow>
          if a = CHR ''3'' \<and> b \<in> set ''01'' then Some (30 + digit_val b)
          else if a \<in> set ''12'' \<and> is_digit b then Some (10 * digit_val a + digit_val b)
          else if a \<in> set ''0 '' \<and> is_digit b \<and> b \<noteq> CHR ''0'' then Some (digit_val b)
          else None
      | [a] \<Rightarrow> if is_digit a \<and> a \<noteq> CHR ''0'' then Some (digit_val a) else None
      | _ \<Rightarrow> None)"

definition parse_month :: "string \<Rightarrow> int option" where
  "parse_month s =
     (case s of
        [a, b] \<Rightarrow>
          if a = CHR ''1'' \<and> b \<in> set ''012'' then Some (10 + digit_val b)
          else if a = CHR ''0'' \<and> is_digit b \<and> b \<noteq> CHR ''0'' then Some (digit_val b)
          else None
      | [a] \<Rightarrow> if is_digit a \<and> a \<noteq> CHR ''0'' then Some (digit_val a) else None
      | _ \<Rightarrow> None)"

definition parse_year2 :: "string \<Rightarrow> int option" where
  "parse_year2 s =
     (case s of
        [a, b] \<Rightarrow>
          if is_digit a \<and> is_digit b
          then (let y = 10 * digit_val a + digit_val b
                in Some (if y \<le> 68 then y + 2000 else y + 1900))
          else None
      | _ \<Rightarrow> None)"

definition strptime_date :: "string \<Rightarrow> error + datetime" where
  "strptime_date s =
     (let d_part = takeWhile (\<lambda>c. c \<noteq> CHR ''/'') s;
          rest1 = dropWhile (\<lambda>c. c \<noteq> CHR ''/'') s;
          m_part = takeWhile (\<lambda>c. c \<noteq> CHR ''/'') (drop 1 rest1);
          rest2 = dropWhile (\<lambda>c. c \<noteq> CHR ''/'') (drop 1 rest1);
          y_part = drop 1 rest2
      in if rest1 = [] \<or> rest2 = [] then Inl ValueError
         else case (parse_day d_part, parse_month m_part, parse_year2 y_part) of
                (Some d, Some m, Some y) \<Rightarrow>
                  if valid_date y m d
                  then Inr \<lparr>year = y, month = m, day = d, hour = 0, minute = 0\<rparr>
                  else Inl ValueError
              | _ \<Rightarrow> Inl ValueError)"

text \<open>
  \<^verbatim>\<open>dateutil.relativedelta.relativedelta(dt1, dt2)\<close>, as far as its \<^verbatim>\<open>years\<close> and
  \<^verbatim>\<open>months\<close>. \<open>set_months\<close> is \<^verbatim>\<open>_set_months\<close>: it splits a month count into years and
  months of its sign. \<open>relativedelta_radd\<close> is \<^verbatim>\<open>__radd__\<close>: it moves a date by those
  years and months, clips the day to the month reached and builds the date with
  \<^verbatim>\<open>replace\<close>. \<open>relativedelta_loop\<close> is the constructor's loop
  \<^verbatim>\<open>while compare(dt1, dtm): months += increment\<close>, where \<open>up\<close> says that \<open>dt1 < dt2\<close>,
  so that \<^verbatim>\<open>compare\<close> is \<^verbatim>\<open>>\<close> and the increment is 1.
\<close>

definition set_months :: "int \<Rightarrow> int \<times> int" where
  "set_months ms =
     (if 11 < \<bar>ms\<bar>
      then (let s = sgn ms in (((ms * s) div 12) * s, ((ms * s) mod 12) * s))
      else (0, ms))"

definition relativedelta_radd :: "int \<times> int \<Rightarrow> datetime \<Rightarrow> error + datetime" where
  "relativedelta_radd ym dt =
     (let y0 = year dt + fst ym;
          m0 = month dt + snd ym;
          y = (if snd ym = 0 then y0 else if 12 < m0 then y0 + 1 else if m0 < 1 then y0 - 1 else y0);
          m = (if snd ym = 0 then m0 else if 12 < m0 then m0 - 12 else if m0 < 1 then m0 + 12 else m0);
          d = min (days_in_month y m) (day dt)
      in if valid_date y m d then Inr (dt\<lparr>year := y, month := m, day := d\<rparr>)
         else Inl ValueError)"

function relativedelta_loop :: "bool \<Rightarrow> datetime \<Rightarrow> datetime \<Rightarrow> int \<Rightarrow> error + int \<times> int" where
  "relativedelta_loop up dt1 dt2 months =
     (case relativedelta_radd (set_months months) dt2 of
        Inl e \<Rightarrow> Inl e
      | Inr dtm \<Rightarrow>
          if (if up then dt_less dtm dt1 else dt_less dt1 dtm)
          then relativedelta_loop up dt1 dt2 (months + (if up then 1 else - 1))
          else Inr (set_months months))"
  by pat_completeness auto

lemma set_months_sum: "fst (set_months k) * 12 + snd (set_months k) = k"
proof -
  consider "\<bar>k\<bar> \<le> 11" | "11 < k" | "k < - 11" by linarith
  then show ?thesis
  proof cases
    case 1
    then show ?thesis by (simp add: set_months_def)
  next
    case 2
    have "k div 12 * 12 + k mod 12 = k" by presburger
    with 2 show ?thesis by (simp add: set_months_def Let_def)
  next
    case 3
    have "- (- k div 12 * 12) - - k mod 12 = k" by presburger
    with 3 show ?thesis by (simp add: set_months_def Let_def)
  qed
qed

lemma relativedelta_radd_months:
  assumes "relativedelta_radd (set_months k) dt = Inr dtm"
  shows "year dtm * 12 + month dtm = year dt * 12 + month dt + k"
    and "1 \<le> month dtm" and "month dtm \<le> 12"
proof -
  have k: "fst (set_months k) * 12 + snd (set_months k) = k"
    by (rule set_months_sum)
  from assms show "1 \<le> month dtm" "month dtm \<le> 12"
    by (auto simp: relativedelta_radd_def Let_def valid_date_def split: if_splits)
  from assms k show "year dtm * 12 + month dtm = year dt * 12 + month dt + k"
    by (auto simp: relativedelta_radd_def Let_def split: if_splits)
qed

lemma dt_less_year: "dt_less a b \<Longrightarrow> year a \<le> year b"
  by (auto simp: dt_less_def less_prod_def)

termination relativedelta_loop
proof (relation "measure (\<lambda>(up, dt1, dt2, k).
          if up then nat (12 * year dt1 - (year dt2 * 12 + month dt2) + 13 - k)
          else nat (k - (12 * year dt1 - (year dt2 * 12 + month dt2))))", goal_cases)
  case 1
  then show ?case by simp
next
  case (2 up dt1 dt2 months dtm)
  from relativedelta_radd_months[OF 2(1)] 2(2) show ?case
    by (auto dest!: dt_less_year split: if_splits)
qed

declare relativedelta_loop.simps [simp del]

definition relativedelta :: "datetime \<Rightarrow> datetime \<Rightarrow> error + int \<times> int" where
  "relativedelta dt1 dt2 =
     relativedelta_loop (dt_less dt1 dt2) dt1 dt2
       ((year dt1 - year dt2) * 12 + (month dt1 - month dt2))"

subsection \<open>The parsed document: the part of \<^verbatim>\<open>BeautifulSoup\<close> the program calls\<close>

text \<open>
  A node of the parsed document is a tag, with the values of its \<^verbatim>\<open>class\<close> attribute and
  its contents, or a piece of text. \<^verbatim>\<open>find_all(class_=c)\<close> lists the descendants of a node
  that carry class \<open>c\<close>, in document order; each comes with its \<^verbatim>\<open>next_sibling\<close>, the node
  after it in its parent's contents, if there is one.
\<close>

datatype node = Tag "string list" "node list" | NavigableString string

definition has_class :: "string \<Rightarrow> node \<Rightarrow> bool" where
  "has_class c n = (case n of Tag cls kids \<Rightarrow> c \<in> set cls | NavigableString s \<Rightarrow> False)"

definition next_of :: "node list \<Rightarrow> node option" where
  "next_of ks = (case ks of [] \<Rightarrow> None | k # rest \<Rightarrow> Some k)"

fun find_all :: "string \<Rightarrow> node \<Rightarrow> (node \<times> node option) list"
  and find_all_in :: "string \<Rightarrow> node list \<Rightarrow> (node \<times> node option) list" where
  "find_all c (Tag cls kids) = find_all_in c kids"
| "find_all c (NavigableString s) = []"
| "find_all_in c [] = []"
| "find_all_in c (k # ks) =
     (if has_class c k then [(k, next_of ks)] else []) @ find_all c k @ find_all_in c ks"

text \<open>\<^verbatim>\<open>find(class_=c)\<close>: the first of \<^verbatim>\<open>find_all\<close>, or \<^verbatim>\<open>None\<close>.\<close>

definition find :: "string \<Rightarrow> node \<Rightarrow> node option" where
  "find c n = (case find_all c n of [] \<Rightarrow> None | (t, sib) # rest \<Rightarrow> Some t)"

text \<open>
  \<^verbatim>\<open>.string\<close>: a piece of text is its own string; a tag with exactly one child has that
  child's string; any other tag has \<^verbatim>\<open>None\<close>.
\<close>

fun node_string :: "node \<Rightarrow> string option" where
  "node_string (NavigableString s) = Some s"
| "node_string (Tag cls [k]) = node_string k"
| "node_string (Tag cls kids) = None"

text \<open>\<^verbatim>\<open>str(x)\<close> for a string or \<^verbatim>\<open>None\<close>.\<close>

definition py_str :: "string option \<Rightarrow> string" where
  "py_str x = (case x of None \<Rightarrow> ''None'' | Some s \<Rightarrow> s)"

subsection \<open>The world and the platform\<close>

text \<open>
  \<open>files\<close> maps a path to the file's bytes; \<open>unwritable\<close> maps a path that
  \<^verbatim>\<open>open(name, 'wb')\<close> refuses to the exception it raises, \<^verbatim>\<open>FileNotFoundError\<close> where the
  directory is missing, \<^verbatim>\<open>PermissionError\<close> where writing is not allowed; \<open>stdout\<close> holds the
  lines printed so far. The progress bar of \<^verbatim>\<open>tqdm\<close> goes to the error stream and is left
  out.
\<close>

record world =
  files :: "string \<rightharpoonup> string"
  unwritable :: "string \<rightharpoonup> error"
  stdout :: "string list"

definition print :: "string \<Rightarrow> world \<Rightarrow> world" where
  "print line w = w\<lparr>stdout := stdout w @ [line]\<rparr>"

text \<open>
  The library calls whose results depend on the installation are parameters of the model:
  the markup parser \<^verbatim>\<open>BeautifulSoup(open(f, encoding='utf8'), 'lxml')\<close> on a file's bytes,
  \<^verbatim>\<open>strptime\<close> with the locale and time zone dependent format
  \<^verbatim>\<open>'%A, %d %B %Y at %H:%M %Z'\<close>, and the two directions of \<^verbatim>\<open>pickle\<close>.
\<close>

record platform =
  bs4_parse :: "string \<Rightarrow> error + node"
  strptime_full :: "string \<Rightarrow> error + datetime"
  pickle_dumps :: "string list \<Rightarrow> string"
  pickle_loads :: "string \<Rightarrow> error + string list"

subsection \<open>The class \<^verbatim>\<open>FacebookConversationAnalysis\<close>\<close>

text \<open>
  The instance: \<^verbatim>\<open>self.data\<close>, the list of the four sequences (senders, messages, dates,
  times), and \<^verbatim>\<open>self.total_msgs\<close>. No method but the constructor assigns to them, so the
  methods take the instance and do not return it.
\<close>

record pipeline =
  data :: "string list list"
  total_msgs :: nat

definition pickle_file_names :: "string list" where
  "pickle_file_names =
     [''pickles/senders.pickle'', ''pickles/messages.pickle'',
      ''pickles/dates.pickle'', ''pickles/times.pickle'']"

text \<open>\<^verbatim>\<open>save_pickle(data, name)\<close>, lines 42 to 46.\<close>

definition save_pickle :: "platform \<Rightarrow> string list \<Rightarrow> string \<Rightarrow> world \<Rightarrow> error + world" where
  "save_pickle pf xs name w =
     (case unwritable w name of
        Some e \<Rightarrow> Inl e
      | None \<Rightarrow>
          Inr (print (''[INFO]: '' @ name @ '' saved'')
                 (w\<lparr>files := (files w)(name \<mapsto> pickle_dumps pf xs)\<rparr>)))"

text \<open>\<^verbatim>\<open>load_pickle(name)\<close>, lines 49 to 53.\<close>

definition load_pickle :: "platform \<Rightarrow> string \<Rightarrow> world \<Rightarrow> error + string list \<times> world" where
  "load_pickle pf name w =
     (case files w name of
        None \<Rightarrow> Inl FileNotFoundError
      | Some raw \<Rightarrow>
          (case pickle_loads pf raw of
             Inl e \<Rightarrow> Inl e
           | Inr xs \<Rightarrow> Inr (xs, print (''[INFO]: '' @ name @ '' loaded'') w)))"

text \<open>
  The body of the inner loop of \<^verbatim>\<open>extract_data_from_html_file\<close>, lines 67 to 73, for one
  message element and its next sibling: sender, message, date and time.
\<close>

definition extract_chat ::
  "platform \<Rightarrow> node \<times> node option \<Rightarrow> error + string \<times> string \<times> string \<times> string" where
  "extract_chat pf chat =
     (case find ''user'' (fst chat) of
        None \<Rightarrow> Inl AttributeError
      | Some u \<Rightarrow>
          (case snd chat of
             None \<Rightarrow> Inl AttributeError
           | Some sibling \<Rightarrow>
               (case find ''meta'' (fst chat) of
                  None \<Rightarrow> Inl AttributeError
                | Some m \<Rightarrow>
                    (case node_string m of
                       None \<Rightarrow> Inl AttributeError
                     | Some meta \<Rightarrow>
                         (case strptime_full pf (str_remove ''+01'' meta) of
                            Inl e \<Rightarrow> Inl e
                          | Inr full_date \<Rightarrow>
                              Inr (py_str (node_string u), py_str (node_string sibling),
                                   strftime_date full_date, strftime_time full_date))))))"

text \<open>
  The inner loop, over the message elements of one thread, lines 65 to 78. The four lists
  \<^verbatim>\<open>users\<close>, \<^verbatim>\<open>msgs\<close>, \<^verbatim>\<open>dates\<close> and \<^verbatim>\<open>times\<close> are threaded through.
\<close>

type_synonym columns = "string list \<times> string list \<times> string list \<times> string list"

fun extract_chats :: "platform \<Rightarrow> (node \<times> node option) list \<Rightarrow> columns \<Rightarrow> error + columns" where
  "extract_chats pf [] acc = Inr acc"
| "extract_chats pf (chat # chats) (users, msgs, dates, tms) =
     (case extract_chat pf chat of
        Inl e \<Rightarrow> Inl e
      | Inr (user, msg, date, time) \<Rightarrow>
          extract_chats pf chats (users @ [user], msgs @ [msg], dates @ [date], tms @ [time]))"

text \<open>The outer loop, over the threads of the document, lines 63 to 78.\<close>

fun extract_threads :: "platform \<Rightarrow> (node \<times> node option) list \<Rightarrow> columns \<Rightarrow> error + columns" where
  "extract_threads pf [] acc = Inr acc"
| "extract_threads pf (thread # threads) acc =
     (case extract_chats pf (find_all ''message'' (fst thread)) acc of
        Inl e \<Rightarrow> Inl e
      | Inr acc' \<Rightarrow> extract_threads pf threads acc')"

text \<open>\<^verbatim>\<open>extract_data_from_html_file(html_file)\<close>, lines 56 to 81.\<close>

definition extract_data_from_html_file ::
  "platform \<Rightarrow> string \<Rightarrow> world \<Rightarrow> error + string list list \<times> world" where
  "extract_data_from_html_file pf html_file w =
     (let w1 = print (''[INFO]: Extracting data from '' @ html_file) w
      in case files w1 html_file of
           None \<Rightarrow> Inl FileNotFoundError
         | Some raw \<Rightarrow>
             (case bs4_parse pf raw of
                Inl e \<Rightarrow> Inl e
              | Inr soup \<Rightarrow>
                  (case extract_threads pf (find_all ''thread'' soup) ([], [], [], []) of
                     Inl e \<Rightarrow> Inl e
                   | Inr (users, msgs, dates, tms) \<Rightarrow>
                       Inr ([users, msgs, dates, tms],
                            print (''[INFO]: Data extracted from '' @ html_file) w1))))"

text \<open>
  The message elements the two loops visit: for each thread of the document, in order, the
  message elements \<^verbatim>\<open>find_all\<close> finds in it.
\<close>

definition message_elements :: "node \<Rightarrow> (node \<times> node option) list" where
  "message_elements soup =
     concat (map (\<lambda>thread. find_all ''message'' (fst thread)) (find_all ''thread'' soup))"

text \<open>
  The constructor, lines 18 to 39. \<open>save_all\<close> is the loop of lines 31 and 32, \<open>load_all\<close>
  the loop of lines 35 and 36.
\<close>

fun save_all :: "platform \<Rightarrow> string list list \<Rightarrow> nat \<Rightarrow> string list \<Rightarrow> world \<Rightarrow> error + world" where
  "save_all pf d n [] w = Inr w"
| "save_all pf d n (name # names) w =
     (if n < length d
      then (case save_pickle pf (d ! n) name w of
              Inl e \<Rightarrow> Inl e
            | Inr w' \<Rightarrow> save_all pf d (Suc n) names w')
      else Inl IndexError)"

fun load_all :: "platform \<Rightarrow> string list \<Rightarrow> string list list \<Rightarrow> world \<Rightarrow> error + string list list \<times> world" where
  "load_all pf [] d w = Inr (d, w)"
| "load_all pf (name # names) d w =
     (case load_pickle pf name w of
        Inl e \<Rightarrow> Inl e
      | Inr (xs, w') \<Rightarrow> load_all pf names (d @ [xs]) w')"

definition init :: "platform \<Rightarrow> string \<Rightarrow> bool \<Rightarrow> world \<Rightarrow> error + pipeline \<times> world" where
  "init pf html_file get_data w =
     (case (if get_data
            then (case extract_data_from_html_file pf html_file w of
                    Inl e \<Rightarrow> Inl e
                  | Inr (unused, w1) \<Rightarrow>
                      (case extract_data_from_html_file pf html_file w1 of
                         Inl e \<Rightarrow> Inl e
                       | Inr (d, w2) \<Rightarrow>
                           (case save_all pf d 0 pickle_file_names w2 of
                              Inl e \<Rightarrow> Inl e
                            | Inr w3 \<Rightarrow> Inr (d, w3))))
            else load_all pf pickle_file_names [] w) of
        Inl e \<Rightarrow> Inl e
      | Inr (d, w') \<Rightarrow>
          (case d of
             [] \<Rightarrow> Inl IndexError
           | senders # others \<Rightarrow> Inr (\<lparr>data = d, total_msgs = length senders\<rparr>, w')))"

subsection \<open>The aggregates\<close>

text \<open>
  \<^verbatim>\<open>collections.Counter(xs)\<close> as the list of its items, a key at the place of its first
  occurrence.
\<close>

fun counter_add :: "'a \<Rightarrow> ('a \<times> nat) list \<Rightarrow> ('a \<times> nat) list" where
  "counter_add x [] = [(x, 1)]"
| "counter_add x ((k, n) # kvs) =
     (if k = x then (k, Suc n) # kvs else (k, n) # counter_add x kvs)"

definition Counter :: "'a list \<Rightarrow> ('a \<times> nat) list" where
  "Counter xs = fold counter_add xs []"

text \<open>
  \<^verbatim>\<open>calculate_total_messages_per_user(users)\<close>, lines 84 to 90. \<open>msgs_percentage\<close> is
  line 89 for one count, in exact arithmetic, and \<open>msgs_percentage_float\<close> the float it
  leaves in the variable: the quotient rounded, then the product rounded. \<open>user_rows\<close> is
  the loop, giving for each \<open>i\<close> the sender, the count and the percentage; \<open>user_line\<close> is
  the line that line 90 prints for a row. Unpacking the \<^verbatim>\<open>zip\<close> of no item raises
  \<^verbatim>\<open>ValueError\<close>.
\<close>

definition msgs_percentage :: "pipeline \<Rightarrow> nat \<Rightarrow> error + rat" where
  "msgs_percentage fb c =
     (if total_msgs fb = 0 then Inl ZeroDivisionError
      else Inr (of_nat c / of_nat (total_msgs fb) * 100))"





text \<open>
  \<^verbatim>\<open>calculate_average_words_per_message(msgs)\<close>, lines 93 to 100. \<open>total_words\<close> is the
  loop of lines 96 and 97, \<open>avg_words_per_msg\<close> the quotient of line 99, in exact arithmetic;
  \<open>format_2f\<close> rounds it to the float and prints that.
\<close>

definition total_words :: "string list \<Rightarrow> nat" where
  "total_words msgs = fold (\<lambda>msg total. total + length (str_split msg)) msgs 0"

definition avg_words_per_msg :: "pipeline \<Rightarrow> string list \<Rightarrow> error + rat" where
  "avg_words_per_msg fb msgs =
     (if total_msgs fb = 0 then Inl ZeroDivisionError
      else Inr (of_nat (total_words msgs) / of_nat (total_msgs fb)))"

definition calculate_average_words_per_message ::
  "pipeline \<Rightarrow> string list \<Rightarrow> world \<Rightarrow> error + world" where
  "calculate_average_words_per_message fb msgs w =
     (case avg_words_per_msg fb msgs of
        Inl e \<Rightarrow> Inl e
      | Inr avg \<Rightarrow> Inr (print (''[INFO]: Average Words/Message: '' @ format_2f avg) w))"

text \<open>
  \<^verbatim>\<open>calculate_average_messages_per_unit_time(dates, unit_time)\<close>, lines 103 to 123.
  \<open>interval_of\<close> is the chain of lines 113 to 120, on \<^verbatim>\<open>delta_dt.days\<close> and the years and
  months of \<^verbatim>\<open>delta_du\<close>; \<open>avg_messages_per_day\<close> is the quotient of line 122, in exact
  arithmetic. The float has the sign bit of the interval, the total not being negative.
  The days between two dates of \<^verbatim>\<open>'%d/%m/%y'\<close> stay below 36525, where the float
  quotient by 7 has the ceiling of the exact one.
\<close>

definition interval_of :: "string \<Rightarrow> int \<Rightarrow> int \<times> int \<Rightarrow> int" where
  "interval_of unit_time delta_dt delta_du =
     (if unit_time = ''day'' then delta_dt
      else if unit_time = ''week'' then \<lceil>(of_int delta_dt :: rat) / 7\<rceil>
      else if unit_time = ''month'' then fst delta_du * 12 + snd delta_du
      else fst delta_du)"

definition avg_messages_per_day :: "pipeline \<Rightarrow> int \<Rightarrow> error + rat" where
  "avg_messages_per_day fb interval =
     (if interval = 0 then Inl ZeroDivisionError
      else Inr (of_nat (total_msgs fb) / of_int interval))"

definition calculate_average_messages_per_unit_time ::
  "pipeline \<Rightarrow> string list \<Rightarrow> string \<Rightarrow> world \<Rightarrow> error + world" where
  "calculate_average_messages_per_unit_time fb dates unit_time w =
     (if dates = [] then Inl IndexError
      else case strptime_date (last dates) of
        Inl e \<Rightarrow> Inl e
      | Inr first_date \<Rightarrow>
          (case strptime_date (hd dates) of
             Inl e \<Rightarrow> Inl e
           | Inr last_date \<Rightarrow>
               (case relativedelta last_date first_date of
                  Inl e \<Rightarrow> Inl e
                | Inr delta_du \<Rightarrow>
                    if unit_time \<notin> set [''day'', ''week'', ''month'', ''year'']
                    then Inr (print ''[ERROR]: Please choose a correct value for unit_time'' w)
                    else (let interval =
                                interval_of unit_time (delta_days last_date first_date) delta_du
                          in case avg_messages_per_day fb interval of
                               Inl e \<Rightarrow> Inl e
                             | Inr avg \<Rightarrow>
                                 Inr (print (''[INFO]: Average Messages/''
                                        @ str_title unit_time @ '': ''
                                        @ float_2f (interval < 0) (binary64 \<bar>avg\<bar>)) w)))))"

text \<open>
  \<^verbatim>\<open>find_most_active_day(dates)\<close>, lines 127 to 135. \<^verbatim>\<open>max\<close> keeps the first of the items
  with the greatest count and raises \<^verbatim>\<open>ValueError\<close> when there is none.
\<close>

definition max_item :: "('a \<times> nat) list \<Rightarrow> ('a \<times> nat) option" where
  "max_item kvs =
     (case kvs of
        [] \<Rightarrow> None
      | kv # rest \<Rightarrow> Some (fold (\<lambda>x best. if snd best < snd x then x else best) rest kv))"

definition find_most_active_day :: "string list \<Rightarrow> world \<Rightarrow> error + world" where
  "find_most_active_day dates w =
     (case max_item (Counter dates) of
        None \<Rightarrow> Inl ValueError
      | Some (date, num_msgs) \<Rightarrow>
          if num_msgs = 0 then Inl ZeroDivisionError
          else Inr (print (''[INFO]: Most active day was '' @ date @ '' with '' @ str_nat num_msgs
                      @ '' messages sent. Thats a message every ''
                      @ format_2f (86400 / of_nat num_msgs) @ '' seconds!'') w))"

subsection \<open>The chart\<close>

text \<open>\<^verbatim>\<open>itertools.groupby(xs, key)\<close>: the maximal runs of equal key, each with its key.\<close>

fun groupby :: "('a \<Rightarrow> 'k) \<Rightarrow> 'a list \<Rightarrow> ('k \<times> 'a list) list" where
  "groupby key [] = []"
| "groupby key (x # xs) =
     (case groupby key xs of
        [] \<Rightarrow> [(key x, [x])]
      | (k, g) # rest \<Rightarrow>
          if key x = k then (k, x # g) # rest else (key x, [x]) # (k, g) # rest)"

text \<open>
  \<^verbatim>\<open>plot_total_msgs_per_hour\<close>, lines 138 to 154. \<open>hour_buckets\<close> is lines 139 to 145 and
  gives \<^verbatim>\<open>msgs_per_hour\<close> and \<^verbatim>\<open>hours\<close>; the chart is what lines 148 to 153 hand to
  \<^verbatim>\<open>matplotlib\<close>.
\<close>

definition hour_buckets :: "string list \<Rightarrow> nat list \<times> string list" where
  "hour_buckets tms =
     (let groups = groupby (take 2) (sort tms)
      in (map (\<lambda>kg. length (snd kg)) groups, map fst groups))"

record chart =
  plot_x :: "nat list"
  plot_y :: "nat list"
  xticks :: "string list"
  xlim :: "int \<times> int"
  xlabel :: string
  ylabel :: string
  title :: string

definition plot_total_msgs_per_hour :: "string list \<Rightarrow> string \<Rightarrow> string \<Rightarrow> string \<Rightarrow> chart" where
  "plot_total_msgs_per_hour tms ttl x_label y_label =
     (let (msgs_per_hour, hours) = hour_buckets tms
      in \<lparr>plot_x = [0 ..< length msgs_per_hour], plot_y = msgs_per_hour, xticks = hours,
          xlim = (0, int (length hours) - 1), xlabel = x_label, ylabel = y_label,
          title = ttl\<rparr>)"

subsection \<open>A sample document, platform and cache\<close>

text \<open>
  A document of one thread with two messages, a platform that parses every file to it and
  reads its two timestamps, with a codec in place of \<^verbatim>\<open>pickle\<close> (each character behind a
  \<^verbatim>\<open>c\<close>, each string closed by a dot), a world that holds the document, and a cache whose
  four sequences have the lengths 3, 1, 2 and 0. The theorems below are instantiated at
  them.
\<close>

definition sample_soup :: node where
  "sample_soup =
     Tag [] [Tag [''thread'']
       [NavigableString ''Al, Bo'',
        Tag [''message'']
          [Tag [''message_header'']
             [Tag [''user''] [NavigableString ''Al''],
              Tag [''meta''] [NavigableString ''Monday, 2 January 2017 at 10:05 UTC+01'']]],
        Tag [] [NavigableString ''hi there''],
        Tag [''message'']
          [Tag [''message_header'']
             [Tag [''user''] [NavigableString ''Bo''],
              Tag [''meta''] [NavigableString ''Sunday, 1 January 2017 at 09:15 UTC'']]],
        Tag [] [NavigableString ''yo'']]]"

definition sample_strptime :: "string \<Rightarrow> error + datetime" where
  "sample_strptime s =
     (if s = ''Monday, 2 January 2017 at 10:05 UTC''
      then Inr \<lparr>year = 2017, month = 1, day = 2, hour = 10, minute = 5\<rparr>
      else if s = ''Sunday, 1 January 2017 at 09:15 UTC''
      then Inr \<lparr>year = 2017, month = 1, day = 1, hour = 9, minute = 15\<rparr>
      else Inl ValueError)"

definition sample_dumps :: "string list \<Rightarrow> string" where
  "sample_dumps xs = concat (map (\<lambda>s. concat (map (\<lambda>c. [CHR ''c'', c]) s) @ ''.'') xs)"

fun sample_loads_from :: "string \<Rightarrow> string \<Rightarrow> error + string list" where
  "sample_loads_from cur [] = (if cur = [] then Inr [] else Inl UnpicklingError)"
| "sample_loads_from cur [t] =
     (if t = CHR ''.'' then Inr [rev cur] else Inl UnpicklingError)"
| "sample_loads_from cur (t # c # rest) =
     (if t = CHR ''.''
      then (case sample_loads_from [] (c # rest) of
              Inl e \<Rightarrow> Inl e
            | Inr xs \<Rightarrow> Inr (rev cur # xs))
      else sample_loads_from (c # cur) rest)"

definition sample_platform :: platform where
  "sample_platform =
     \<lparr>bs4_parse = (\<lambda>raw. Inr sample_soup), strptime_full = sample_strptime,
      pickle_dumps = sample_dumps, pickle_loads = sample_loads_from []\<rparr>"

definition sample_world :: world where
  "sample_world = \<lparr>files = [''171.html'' \<mapsto> ''<html>''], unwritable = Map.empty, stdout = []\<rparr>"

definition sample_cache :: world where
  "sample_cache =
     \<lparr>files = [''pickles/senders.pickle'' \<mapsto> sample_dumps [''Al'', ''Bo'', ''Al''],
               ''pickles/messages.pickle'' \<mapsto> sample_dumps [''hi''],
               ''pickles/dates.pickle'' \<mapsto> sample_dumps [''15/03/23'', ''15/03/23''],
               ''pickles/times.pickle'' \<mapsto> sample_dumps []],
      unwritable = Map.empty, stdout = []\<rparr>"

section \<open>Properties\<close>

subsection \<open>Evaluations at the inputs of the specification's examples\<close>

lemma floor_rat_div_numeral:
  "\<lfloor>(numeral a :: rat) / numeral b\<rfloor> = numeral a div numeral b"
  by (metis floor_divide_of_int_eq of_int_numeral)

lemma ceiling_rat_div_numeral:
  "\<lceil>(numeral a :: rat) / numeral b\<rceil> = - (- numeral a div numeral b)"
  by (metis ceiling_divide_eq_div of_int_numeral)

lemmas float_eval = binary64_def floor_log2_def pow2_def round_half_even_def Let_def
  bit_length.simps floor_rat_div_numeral ceiling_rat_div_numeral

lemma digit_chars:
  "digit_char 0 = CHR ''0''" "digit_char 1 = CHR ''1''" "digit_char 2 = CHR ''2''"
  "digit_char 3 = CHR ''3''" "digit_char 4 = CHR ''4''" "digit_char 5 = CHR ''5''"
  "digit_char 6 = CHR ''6''" "digit_char 7 = CHR ''7''" "digit_char 8 = CHR ''8''"
  "digit_char 9 = CHR ''9''"
  by code_simp+

lemmas digits_eval = float_2f_def round_half_even_def Let_def pad2_def str_nat.simps
  digit_chars floor_rat_div_numeral

lemma binary64_fifth: "binary64 (1 / 5) = 3602879701896397 / 18014398509481984"
  by (simp add: float_eval)

lemma binary64_43200: "binary64 43200 = 43200"
  by (simp add: float_eval)

lemma binary64_28800: "binary64 28800 = 28800"
  by (simp add: float_eval)

lemma float_2f_fifth: "float_2f False (binary64 (1 / 5)) = ''0.20''"
  by (simp add: binary64_fifth digits_eval)

lemma format_2f_43200: "format_2f 43200 = ''43200.00''"
  by (simp add: format_2f_def binary64_43200 digits_eval)

lemma format_2f_28800: "format_2f 28800 = ''28800.00''"
  by (simp add: format_2f_def binary64_28800 digits_eval)

lemma strptime_date_20_01_23:
  "strptime_date ''20/01/23'' = Inr \<lparr>year = 2023, month = 1, day = 20, hour = 0, minute = 0\<rparr>"
  by code_simp

lemma strptime_date_10_01_23:
  "strptime_date ''10/01/23'' = Inr \<lparr>year = 2023, month = 1, day = 10, hour = 0, minute = 0\<rparr>"
  by code_simp

lemma delta_days_20_10:
  "delta_days \<lparr>year = 2023, month = 1, day = 20, hour = 0, minute = 0\<rparr>
              \<lparr>year = 2023, month = 1, day = 10, hour = 0, minute = 0\<rparr> = 10"
  by code_simp

lemma relativedelta_20_10:
  "relativedelta \<lparr>year = 2023, month = 1, day = 20, hour = 0, minute = 0\<rparr>
                 \<lparr>year = 2023, month = 1, day = 10, hour = 0, minute = 0\<rparr> = Inr (0, 0)"
  by code_simp

lemma str_title_day: "str_title ''day'' = ''Day''"
  by code_simp

subsection \<open>\<^verbatim>\<open>relativedelta\<close> returns on parsed dates\<close>

lemma set_months_snd_bound: "\<bar>snd (set_months k)\<bar> \<le> 11"
proof -
  consider "\<bar>k\<bar> \<le> 11" | "11 < k" | "k < - 11" by linarith
  then show ?thesis
  proof cases
    case 1
    then show ?thesis by (simp add: set_months_def)
  next
    case 2
    have "0 \<le> k mod 12" "k mod 12 < 12" by simp_all
    with 2 show ?thesis by (simp add: set_months_def Let_def)
  next
    case 3
    have "0 \<le> (- k) mod 12" "(- k) mod 12 < 12" by simp_all
    with 3 show ?thesis by (simp add: set_months_def Let_def)
  qed
qed

lemma days_in_month_pos: "1 \<le> days_in_month y m"
  by (simp add: days_in_month_def)

lemma relativedelta_radd_ok:
  assumes m: "1 \<le> month dt" "month dt \<le> 12" and d: "1 \<le> day dt"
    and lo: "13 \<le> year dt * 12 + month dt + k"
    and hi: "year dt * 12 + month dt + k \<le> 9999 * 12 + 12"
  shows "\<exists>dtm. relativedelta_radd (set_months k) dt = Inr dtm"
proof -
  define ys where "ys = fst (set_months k)"
  define ms where "ms = snd (set_months k)"
  have k: "ys * 12 + ms = k" unfolding ys_def ms_def by (rule set_months_sum)
  have b: "\<bar>ms\<bar> \<le> 11" unfolding ms_def by (rule set_months_snd_bound)
  define y0 where "y0 = year dt + ys"
  define m0 where "m0 = month dt + ms"
  define y where "y = (if ms = 0 then y0 else if 12 < m0 then y0 + 1 else if m0 < 1 then y0 - 1 else y0)"
  define mm where "mm = (if ms = 0 then m0 else if 12 < m0 then m0 - 12 else if m0 < 1 then m0 + 12 else m0)"
  have mm: "1 \<le> mm" "mm \<le> 12" using m b by (auto simp: mm_def m0_def)
  have sum: "y * 12 + mm = year dt * 12 + month dt + k"
    using k by (auto simp: y_def mm_def y0_def m0_def)
  have y: "1 \<le> y" "y \<le> 9999" using sum mm lo hi by linarith+
  have "valid_date y mm (min (days_in_month y mm) (day dt))"
    using y mm d days_in_month_pos[of y mm] by (simp add: valid_date_def)
  then show ?thesis
    unfolding relativedelta_radd_def Let_def
      ys_def[symmetric] ms_def[symmetric] y0_def[symmetric] m0_def[symmetric]
      y_def[symmetric] mm_def[symmetric]
    by simp
qed

lemma dt_less_months:
  assumes "dt_less a b" "1 \<le> month a" "month a \<le> 12" "1 \<le> month b" "month b \<le> 12"
  shows "year a * 12 + month a \<le> year b * 12 + month b"
  using assms by (auto simp: dt_less_def less_prod_def)

lemma relativedelta_loop_returns:
  assumes m1: "1 \<le> month dt1" "month dt1 \<le> 12" and y1: "2 \<le> year dt1" "year dt1 \<le> 9998"
    and m2: "1 \<le> month dt2" "month dt2 \<le> 12" and d2: "1 \<le> day dt2"
  shows "\<exists>r. relativedelta_loop up dt1 dt2
                ((year dt1 - year dt2) * 12 + (month dt1 - month dt2)) = Inr r"
proof -
  define k where "k = (year dt1 - year dt2) * 12 + (month dt1 - month dt2)"
  have ym: "year dt2 * 12 + month dt2 + k = year dt1 * 12 + month dt1"
    by (simp add: k_def algebra_simps)
  obtain dtm where r0: "relativedelta_radd (set_months k) dt2 = Inr dtm"
    using relativedelta_radd_ok[OF m2 d2, of k] ym m1 y1 by auto
  show ?thesis
  proof (cases "if up then dt_less dtm dt1 else dt_less dt1 dtm")
    case False
    then show ?thesis
      unfolding k_def[symmetric]
      by (subst relativedelta_loop.simps) (simp add: r0)
  next
    case True
    define k' where "k' = k + (if up then 1 else - 1)"
    have ym': "year dt2 * 12 + month dt2 + k' = year dt1 * 12 + month dt1 + (if up then 1 else - 1)"
      using ym by (simp add: k'_def)
    obtain dtm' where r1: "relativedelta_radd (set_months k') dt2 = Inr dtm'"
      using relativedelta_radd_ok[OF m2 d2, of k'] ym' m1 y1 by (auto split: if_splits)
    note f = relativedelta_radd_months[OF r1]
    have stop: "\<not> (if up then dt_less dtm' dt1 else dt_less dt1 dtm')"
    proof (cases up)
      case True
      show ?thesis
      proof
        assume "if up then dt_less dtm' dt1 else dt_less dt1 dtm'"
        with True have "dt_less dtm' dt1" by simp
        from dt_less_months[OF this f(2,3) m1] f(1) ym' True show False by simp
      qed
    next
      case False
      show ?thesis
      proof
        assume "if up then dt_less dtm' dt1 else dt_less dt1 dtm'"
        with False have "dt_less dt1 dtm'" by simp
        from dt_less_months[OF this m1 f(2,3)] f(1) ym' False show False by simp
      qed
    qed
    have "relativedelta_loop up dt1 dt2 k' = Inr (set_months k')"
      using stop by (subst relativedelta_loop.simps) (simp add: r1)
    then have "relativedelta_loop up dt1 dt2 k = Inr (set_months k')"
      using True by (subst relativedelta_loop.simps) (simp add: r0 k'_def)
    then show ?thesis unfolding k_def by blast
  qed
qed

lemma digit_val_range: "is_digit c \<Longrightarrow> 0 \<le> digit_val c \<and> digit_val c \<le> 9"
  by (auto simp: is_digit_def digit_val_def)

lemma parse_year2_range: "parse_year2 s = Some y \<Longrightarrow> 1969 \<le> y \<and> y \<le> 2068"
  by (auto simp: parse_year2_def Let_def split: list.splits if_splits dest!: digit_val_range)

lemma strptime_date_fields:
  assumes "strptime_date s = Inr d"
  shows "valid_date (year d) (month d) (day d)" and "hour d = 0" and "minute d = 0"
    and "1969 \<le> year d" and "year d \<le> 2068"
  using assms
  by (auto simp: strptime_date_def Let_def split: if_splits option.splits
       dest: parse_year2_range)

lemma relativedelta_parsed:
  assumes "strptime_date s1 = Inr dt1" "strptime_date s2 = Inr dt2"
  shows "\<exists>r. relativedelta dt1 dt2 = Inr r"
proof -
  note a = strptime_date_fields[OF assms(1)] and b = strptime_date_fields[OF assms(2)]
  from a(1) b(1) have "1 \<le> month dt1" "month dt1 \<le> 12" "1 \<le> month dt2" "month dt2 \<le> 12"
      "1 \<le> day dt2"
    by (simp_all add: valid_date_def)
  moreover from a(4,5) have "2 \<le> year dt1" "year dt1 \<le> 9998" by simp_all
  ultimately show ?thesis
    unfolding relativedelta_def by (intro relativedelta_loop_returns)
qed

lemma delta_days_same: "delta_days d d = 0"
  by (simp add: delta_days_def)

subsection \<open>Words and whitespace\<close>

lemma split_run_Nil_iff: "split_run cur s = [] \<longleftrightarrow> cur = [] \<and> list_all isspace s"
  by (induction s arbitrary: cur) auto

lemma str_split_Nil_iff: "str_split s = [] \<longleftrightarrow> list_all isspace s"
  by (simp add: str_split_def split_run_Nil_iff)

lemma fold_add_length:
  "fold (\<lambda>msg total. total + length (f msg)) msgs n = n + (\<Sum>msg \<leftarrow> msgs. length (f msg))"
  by (induction msgs arbitrary: n) auto

lemma total_words_sum: "total_words msgs = (\<Sum>msg \<leftarrow> msgs. length (str_split msg))"
  by (simp add: total_words_def fold_add_length)

lemma total_words_zero_iff: "total_words msgs = 0 \<longleftrightarrow> list_all (list_all isspace) msgs"
  by (induction msgs) (auto simp: total_words_sum str_split_Nil_iff)

subsection \<open>Counts per sender\<close>




























subsection \<open>Extraction\<close>

lemma extract_chats_lengths:
  assumes "extract_chats pf chats (users, msgs, dates, tms) = Inr (users', msgs', dates', tms')"
  shows "length users' = length users + length chats
       \<and> length msgs' = length msgs + length chats
       \<and> length dates' = length dates + length chats
       \<and> length tms' = length tms + length chats"
  using assms
proof (induction chats arbitrary: users msgs dates tms)
  case Nil
  then show ?case by simp
next
  case (Cons chat chats)
  from Cons.prems obtain user msg date time where
    "extract_chats pf chats (users @ [user], msgs @ [msg], dates @ [date], tms @ [time])
       = Inr (users', msgs', dates', tms')"
    by (auto split: sum.splits)
  from Cons.IH[OF this] show ?case by simp
qed

lemma extract_threads_lengths:
  assumes "extract_threads pf threads (users, msgs, dates, tms) = Inr (users', msgs', dates', tms')"
  shows "length users' = length users + length (concat (map (\<lambda>thread. find_all ''message'' (fst thread)) threads))
       \<and> length msgs' = length msgs + length (concat (map (\<lambda>thread. find_all ''message'' (fst thread)) threads))
       \<and> length dates' = length dates + length (concat (map (\<lambda>thread. find_all ''message'' (fst thread)) threads))
       \<and> length tms' = length tms + length (concat (map (\<lambda>thread. find_all ''message'' (fst thread)) threads))"
  using assms
proof (induction threads arbitrary: users msgs dates tms)
  case Nil
  then show ?case by simp
next
  case (Cons thread threads)
  from Cons.prems obtain u m d t where
    c: "extract_chats pf (find_all ''message'' (fst thread)) (users, msgs, dates, tms) = Inr (u, m, d, t)"
    and r: "extract_threads pf threads (u, m, d, t) = Inr (users', msgs', dates', tms')"
    by (auto split: sum.splits)
  from extract_chats_lengths[OF c] Cons.IH[OF r] show ?case by simp
qed

lemma extract_world:
  assumes "extract_data_from_html_file pf html_file w = Inr (d, w')"
  shows "w' = w\<lparr>stdout := stdout w @ [''[INFO]: Extracting data from '' @ html_file,
                                      ''[INFO]: Data extracted from '' @ html_file]\<rparr>"
    and "\<exists>users msgs dates tms. d = [users, msgs, dates, tms]"
  using assms
  by (auto simp: extract_data_from_html_file_def Let_def print_def
       split: option.splits sum.splits)

lemma extract_same_files:
  assumes "files w1 = files w"
    and "extract_data_from_html_file pf html_file w1 = Inr (d1, w1')"
    and "extract_data_from_html_file pf html_file w = Inr (d, w')"
  shows "d1 = d"
  using assms
  by (auto simp: extract_data_from_html_file_def Let_def print_def
       split: option.splits sum.splits)

subsection \<open>The cache\<close>

lemma save_all_four:
  assumes "save_all pf [a, b, c, e] 0 pickle_file_names w = Inr w'"
  shows "w' = w\<lparr>files := (files w)(''pickles/senders.pickle'' \<mapsto> pickle_dumps pf a,
                                   ''pickles/messages.pickle'' \<mapsto> pickle_dumps pf b,
                                   ''pickles/dates.pickle'' \<mapsto> pickle_dumps pf c,
                                   ''pickles/times.pickle'' \<mapsto> pickle_dumps pf e),
               stdout := stdout w @ [''[INFO]: pickles/senders.pickle saved'',
                                     ''[INFO]: pickles/messages.pickle saved'',
                                     ''[INFO]: pickles/dates.pickle saved'',
                                     ''[INFO]: pickles/times.pickle saved'']\<rparr>"
  using assms
  by (auto simp: pickle_file_names_def save_pickle_def print_def split: option.splits)

lemma load_all_four:
  assumes "files w ''pickles/senders.pickle'' = Some r0" and "pickle_loads pf r0 = Inr senders"
    and "files w ''pickles/messages.pickle'' = Some r1" and "pickle_loads pf r1 = Inr messages"
    and "files w ''pickles/dates.pickle'' = Some r2" and "pickle_loads pf r2 = Inr dates"
    and "files w ''pickles/times.pickle'' = Some r3" and "pickle_loads pf r3 = Inr tms"
  shows "load_all pf pickle_file_names [] w
         = Inr ([senders, messages, dates, tms],
                w\<lparr>stdout := stdout w @ [''[INFO]: pickles/senders.pickle loaded'',
                                         ''[INFO]: pickles/messages.pickle loaded'',
                                         ''[INFO]: pickles/dates.pickle loaded'',
                                         ''[INFO]: pickles/times.pickle loaded'']\<rparr>)"
  using assms by (simp add: pickle_file_names_def load_pickle_def print_def)

subsection \<open>The sample\<close>

lemma sample_threads:
  "extract_threads sample_platform (find_all ''thread'' sample_soup) ([], [], [], [])
     = Inr ([''Al'', ''Bo''], [''hi there'', ''yo''], [''02/01/17'', ''01/01/17''],
            [''10:05'', ''09:15''])"
  by code_simp

lemma sample_extract_any:
  assumes "files w ''171.html'' = Some raw"
  shows "extract_data_from_html_file sample_platform ''171.html'' w
     = Inr ([[''Al'', ''Bo''], [''hi there'', ''yo''], [''02/01/17'', ''01/01/17''],
             [''10:05'', ''09:15'']],
            w\<lparr>stdout := stdout w @ [''[INFO]: Extracting data from 171.html'',
                                     ''[INFO]: Data extracted from 171.html'']\<rparr>)"
proof -
  have "bs4_parse sample_platform raw = Inr sample_soup"
    by (simp add: sample_platform_def)
  then show ?thesis
    using assms
    by (simp add: extract_data_from_html_file_def Let_def print_def sample_threads)
qed

lemma sample_message_elements: "length (message_elements sample_soup) = 2"
  by code_simp

lemma sample_loads_from_string:
  "sample_loads_from cur (concat (map (\<lambda>c. [CHR ''c'', c]) s) @ CHR ''.'' # rest)
     = (case sample_loads_from [] rest of Inl e \<Rightarrow> Inl e | Inr xs \<Rightarrow> Inr ((rev cur @ s) # xs))"
proof (induction s arbitrary: cur)
  case Nil
  then show ?case by (cases rest) (simp_all split: sum.splits)
next
  case (Cons a s)
  then show ?case by (simp split: sum.splits)
qed

lemma sample_codec_roundtrip: "sample_loads_from [] (sample_dumps xs) = Inr xs"
  by (induction xs) (simp_all add: sample_dumps_def sample_loads_from_string)

lemma sample_cache_init:
  "map_sum id fst (init sample_platform ''171.html'' False sample_cache)
     = Inr \<lparr>data = [[''Al'', ''Bo'', ''Al''], [''hi''], [''15/03/23'', ''15/03/23''], []],
            total_msgs = 3\<rparr>"
  by code_simp

lemma sample_max_item:
  "max_item (Counter [''15/03/23'', ''15/03/23'']) = Some (''15/03/23'', 2)"
  by code_simp

lemma sample_most_active_day:
  "find_most_active_day [''15/03/23'', ''15/03/23''] w
     = Inr (print (''[INFO]: Most active day was 15/03/23 with 2 messages sent. ''
                   @ ''Thats a message every 43200.00 seconds!'') w)"
  by (simp add: find_most_active_day_def sample_max_item str_nat.simps digit_chars
      format_2f_43200)

subsection \<open>The claims\<close>

text \<open>
  C1. Whenever the extraction returns, its four sequences (senders, messages, dates,
  times) have one length, the number of message elements found across the threads of the
  document.
\<close>

theorem extract_equal_lengths:
  assumes "extract_data_from_html_file pf html_file w = Inr (d, w')"
  shows "\<exists>raw soup users msgs dates tms.
           files w html_file = Some raw \<and> bs4_parse pf raw = Inr soup
           \<and> d = [users, msgs, dates, tms]
           \<and> length users = length (message_elements soup)
           \<and> length msgs = length (message_elements soup)
           \<and> length dates = length (message_elements soup)
           \<and> length tms = length (message_elements soup)"
proof -
  from assms obtain raw soup users msgs dates tms where
    f: "files w html_file = Some raw" and p: "bs4_parse pf raw = Inr soup"
    and t: "extract_threads pf (find_all ''thread'' soup) ([], [], [], []) = Inr (users, msgs, dates, tms)"
    and d: "d = [users, msgs, dates, tms]"
    by (auto simp: extract_data_from_html_file_def Let_def print_def
         split: option.splits sum.splits)
  from extract_threads_lengths[OF t] f p d show ?thesis
    unfolding message_elements_def by auto
qed

theorem extract_equal_lengths_witness:
  "length (message_elements sample_soup) = 2
   \<and> (\<exists>raw soup users msgs dates tms.
         files sample_world ''171.html'' = Some raw \<and> bs4_parse sample_platform raw = Inr soup
         \<and> [[''Al'', ''Bo''], [''hi there'', ''yo''], [''02/01/17'', ''01/01/17''],
             [''10:05'', ''09:15'']] = [users, msgs, dates, tms]
         \<and> length users = length (message_elements soup)
         \<and> length msgs = length (message_elements soup)
         \<and> length dates = length (message_elements soup)
         \<and> length tms = length (message_elements soup))"
proof -
  have "files sample_world ''171.html'' = Some ''<html>''"
    by (simp add: sample_world_def)
  from extract_equal_lengths[OF sample_extract_any[OF this]] sample_message_elements
  show ?thesis by blast
qed

text \<open>
  C2. For every name and every sequence of texts: when \<^verbatim>\<open>save_pickle\<close> of the sequence
  under the name has returned, and \<^verbatim>\<open>pickle\<close> reads back what it wrote for that sequence,
  \<^verbatim>\<open>load_pickle\<close> of the name returns the sequence.
\<close>

theorem save_then_load:
  assumes "save_pickle pf xs name w = Inr w'"
    and "pickle_loads pf (pickle_dumps pf xs) = Inr xs"
  shows "load_pickle pf name w' = Inr (xs, print (''[INFO]: '' @ name @ '' loaded'') w')"
  using assms
  by (auto simp: save_pickle_def load_pickle_def print_def split: option.splits)

theorem save_then_load_witness:
  "\<exists>w'. save_pickle sample_platform [''Al'', ''Bo''] ''pickles/senders.pickle'' sample_world = Inr w'
      \<and> load_pickle sample_platform ''pickles/senders.pickle'' w'
        = Inr ([''Al'', ''Bo''], print ''[INFO]: pickles/senders.pickle loaded'' w')"
proof -
  obtain w' where
    s: "save_pickle sample_platform [''Al'', ''Bo''] ''pickles/senders.pickle'' sample_world = Inr w'"
    by (simp add: save_pickle_def sample_world_def)
  have c: "pickle_loads sample_platform (pickle_dumps sample_platform [''Al'', ''Bo''])
             = Inr [''Al'', ''Bo'']"
    by (simp add: sample_platform_def sample_codec_roundtrip)
  from save_then_load[OF s c] s show ?thesis by auto
qed

text \<open>
  C3, as stated, fails: the method reads and parses \<^verbatim>\<open>dates[-1]\<close> and \<^verbatim>\<open>dates[0]\<close> on
  lines 104 and 105, before it looks at \<^verbatim>\<open>unit_time\<close> on line 110. On the empty list of
  dates, with the unit \<^verbatim>\<open>'century'\<close>, it raises \<^verbatim>\<open>IndexError\<close> and prints nothing.
\<close>

theorem invalid_unit_counterexample:
  "''century'' \<notin> set [''day'', ''week'', ''month'', ''year'']
   \<and> calculate_average_messages_per_unit_time \<lparr>data = [[], [], [], []], total_msgs = 0\<rparr>
       [] ''century'' \<lparr>files = Map.empty, unwritable = Map.empty, stdout = []\<rparr>
     = Inl IndexError"
  by (simp add: calculate_average_messages_per_unit_time_def)

text \<open>
  C3, amended. For every \<^verbatim>\<open>unit_time\<close> outside day, week, month and year, and every
  non-empty list of dates whose first and last entries parse, the method raises nothing,
  prints the validation message and nothing else, and leaves the files alone; the result
  does not depend on the total or on the interval, so no average is computed.
\<close>

theorem invalid_unit_reported:
  assumes "unit_time \<notin> set [''day'', ''week'', ''month'', ''year'']"
    and "dates \<noteq> []"
    and "strptime_date (last dates) = Inr first_date"
    and "strptime_date (hd dates) = Inr last_date"
  shows "calculate_average_messages_per_unit_time fb dates unit_time w
         = Inr (w\<lparr>stdout := stdout w @ [''[ERROR]: Please choose a correct value for unit_time'']\<rparr>)"
proof -
  obtain r where "relativedelta last_date first_date = Inr r"
    using relativedelta_parsed[OF assms(4) assms(3)] by blast
  then show ?thesis
    using assms
    by (simp add: calculate_average_messages_per_unit_time_def print_def)
qed

theorem invalid_unit_reported_witness:
  "calculate_average_messages_per_unit_time \<lparr>data = [[], [], [], []], total_msgs = 2\<rparr>
     [''20/01/23'', ''10/01/23''] ''century'' \<lparr>files = Map.empty, unwritable = Map.empty, stdout = []\<rparr>
   = Inr \<lparr>files = Map.empty, unwritable = Map.empty,
          stdout = [''[ERROR]: Please choose a correct value for unit_time'']\<rparr>"
  using invalid_unit_reported[of "''century''" "[''20/01/23'', ''10/01/23'']"
      "\<lparr>year = 2023, month = 1, day = 10, hour = 0, minute = 0\<rparr>"
      "\<lparr>year = 2023, month = 1, day = 20, hour = 0, minute = 0\<rparr>"]
  by (simp add: strptime_date_10_01_23 strptime_date_20_01_23)

text \<open>
  C4. For every non-empty list of dates whose first and last entries parse to the same
  calendar date, the average-messages computation with \<^verbatim>\<open>unit_time = 'day'\<close> divides by
  an interval of zero and fails with \<^verbatim>\<open>ZeroDivisionError\<close>, whatever the total is.
\<close>

theorem zero_interval_fails:
  assumes "dates \<noteq> []"
    and "strptime_date (hd dates) = Inr d"
    and "strptime_date (last dates) = Inr d"
  shows "calculate_average_messages_per_unit_time fb dates ''day'' w = Inl ZeroDivisionError"
proof -
  obtain r where "relativedelta d d = Inr r"
    using relativedelta_parsed[OF assms(2) assms(2)] by blast
  then show ?thesis
    using assms
    by (simp add: calculate_average_messages_per_unit_time_def interval_of_def Let_def
        avg_messages_per_day_def delta_days_same)
qed

theorem zero_interval_fails_witness:
  "calculate_average_messages_per_unit_time
     \<lparr>data = [[''a''], [''hi''], [''20/01/23''], [''09:15'']], total_msgs = 1\<rparr>
     [''20/01/23''] ''day'' \<lparr>files = Map.empty, unwritable = Map.empty, stdout = []\<rparr>
   = Inl ZeroDivisionError"
  using zero_interval_fails[of "[''20/01/23'']"
      "\<lparr>year = 2023, month = 1, day = 20, hour = 0, minute = 0\<rparr>"]
  by (simp add: strptime_date_20_01_23)

text \<open>
  C5, as stated, fails in its second half: \<^verbatim>\<open>split()\<close> finds no word in a text of
  whitespace, so one message \<^verbatim>\<open>" "\<close> gives the average 0 and is not empty.
\<close>

theorem average_words_counterexample:
  "avg_words_per_msg
     \<lparr>data = [[''al''], ['' ''], [''20/01/23''], [''09:15'']], total_msgs = 1\<rparr> ['' '']
     = Inr 0
   \<and> '' '' \<noteq> []"
  by (simp add: avg_words_per_msg_def total_words_zero_iff isspace_def)

text \<open>
  C5, amended. For every dataset with \<^verbatim>\<open>total_msgs > 0\<close> the average words per message is
  the sum of the numbers of whitespace-delimited words of the messages, divided by
  \<^verbatim>\<open>total_msgs\<close>; it is not negative, and it is zero only when every message has no word,
  that is, is empty or made of whitespace only (and then it is zero).
\<close>

theorem average_words_nonneg_zero_iff:
  assumes "0 < total_msgs fb"
  shows "\<exists>avg. avg_words_per_msg fb msgs = Inr avg
           \<and> avg = of_nat (\<Sum>msg \<leftarrow> msgs. length (str_split msg)) / of_nat (total_msgs fb)
           \<and> 0 \<le> avg
           \<and> (avg = 0 \<longleftrightarrow> list_all (list_all isspace) msgs)"
  using assms total_words_zero_iff[of msgs]
  by (simp add: avg_words_per_msg_def total_words_sum)

theorem average_words_nonneg_zero_iff_witness:
  "\<exists>avg. avg_words_per_msg
            \<lparr>data = [[''al'', ''bo''], [''hi  there'', []], [''20/01/23'', ''20/01/23''],
                     [''09:15'', ''09:10'']], total_msgs = 2\<rparr> [''hi  there'', []] = Inr avg
           \<and> avg = of_nat (\<Sum>msg \<leftarrow> [''hi  there'', []]. length (str_split msg)) / of_nat 2
           \<and> 0 \<le> avg
           \<and> (avg = 0 \<longleftrightarrow> list_all (list_all isspace) [''hi  there'', []])"
  using average_words_nonneg_zero_iff[of
      "\<lparr>data = [[''al'', ''bo''], [''hi  there'', []], [''20/01/23'', ''20/01/23''],
               [''09:15'', ''09:10'']], total_msgs = 2\<rparr>" "[''hi  there'', []]"]
  by simp

text \<open>
  C6. For \<^verbatim>\<open>dates = ["20/01/23", "10/01/23"]\<close>, \<^verbatim>\<open>unit_time = 'day'\<close> and a total of 2
  messages, the interval between the two parsed dates is 10 days, and the method prints
  the average 2 / 10 as \<^verbatim>\<open>0.20\<close> messages per day.
\<close>

theorem average_messages_per_day_example:
  "strptime_date ''20/01/23''
     = Inr \<lparr>year = 2023, month = 1, day = 20, hour = 0, minute = 0\<rparr>
   \<and> strptime_date ''10/01/23''
     = Inr \<lparr>year = 2023, month = 1, day = 10, hour = 0, minute = 0\<rparr>
   \<and> interval_of ''day''
       (delta_days \<lparr>year = 2023, month = 1, day = 20, hour = 0, minute = 0\<rparr>
                   \<lparr>year = 2023, month = 1, day = 10, hour = 0, minute = 0\<rparr>) du = 10
   \<and> calculate_average_messages_per_unit_time \<lparr>data = d, total_msgs = 2\<rparr>
       [''20/01/23'', ''10/01/23''] ''day'' w
     = Inr (print ''[INFO]: Average Messages/Day: 0.20'' w)"
  by (simp add: calculate_average_messages_per_unit_time_def interval_of_def Let_def
      avg_messages_per_day_def strptime_date_20_01_23 strptime_date_10_01_23
      delta_days_20_10 relativedelta_20_10 float_2f_fifth str_title_day)




text \<open>
  C8. For \<^verbatim>\<open>times = ["09:15", "09:45", "10:05"]\<close> the hour bucketing of the chart (sort,
  then group by the first two characters) gives the bucket \<^verbatim>\<open>"09"\<close> with count 2 and the
  bucket \<^verbatim>\<open>"10"\<close> with count 1, in that order.
\<close>

theorem hour_buckets_example:
  "hour_buckets [''09:15'', ''09:45'', ''10:05''] = ([2, 1], [''09'', ''10''])"
  by code_simp

text \<open>
  C9. When the constructor is called with \<^verbatim>\<open>get_data\<close> set and returns, the extraction has
  run twice on the document (its two lines are printed twice), both runs give the result
  \<open>d\<close> of the extraction on the world the constructor started in, the instance holds \<open>d\<close>,
  and each of the four cache files holds the pickle of its sequence of \<open>d\<close>.
\<close>

theorem init_get_data:
  assumes "init pf html_file True w = Inr (fb, w')"
  shows "\<exists>d w1. extract_data_from_html_file pf html_file w = Inr (d, w1)
           \<and> data fb = d
           \<and> files w' ''pickles/senders.pickle'' = Some (pickle_dumps pf (d ! 0))
           \<and> files w' ''pickles/messages.pickle'' = Some (pickle_dumps pf (d ! 1))
           \<and> files w' ''pickles/dates.pickle'' = Some (pickle_dumps pf (d ! 2))
           \<and> files w' ''pickles/times.pickle'' = Some (pickle_dumps pf (d ! 3))
           \<and> stdout w' = stdout w @
               [''[INFO]: Extracting data from '' @ html_file,
                ''[INFO]: Data extracted from '' @ html_file,
                ''[INFO]: Extracting data from '' @ html_file,
                ''[INFO]: Data extracted from '' @ html_file,
                ''[INFO]: pickles/senders.pickle saved'',
                ''[INFO]: pickles/messages.pickle saved'',
                ''[INFO]: pickles/dates.pickle saved'',
                ''[INFO]: pickles/times.pickle saved'']"
proof -
  from assms obtain unused w1 d w2 where
    e1: "extract_data_from_html_file pf html_file w = Inr (unused, w1)"
    and e2: "extract_data_from_html_file pf html_file w1 = Inr (d, w2)"
    and s: "save_all pf d 0 pickle_file_names w2 = Inr w'"
    and fb: "data fb = d"
    by (auto simp: init_def split: sum.splits list.splits)
  note w1 = extract_world(1)[OF e1] and w2 = extract_world(1)[OF e2]
  have "files w1 = files w" by (simp add: w1)
  from extract_same_files[OF this e2 e1] have same: "unused = d" by simp
  from extract_world(2)[OF e2] obtain a b c e where d: "d = [a, b, c, e]" by blast
  note w' = save_all_four[OF s[unfolded d]]
  show ?thesis
    using e1 fb unfolding same
    by (simp add: d w' w2 w1)
qed

theorem init_get_data_witness:
  "\<exists>fb w'. init sample_platform ''171.html'' True sample_world = Inr (fb, w')
     \<and> (\<exists>d w1. extract_data_from_html_file sample_platform ''171.html'' sample_world = Inr (d, w1)
           \<and> data fb = d
           \<and> files w' ''pickles/senders.pickle'' = Some (pickle_dumps sample_platform (d ! 0))
           \<and> files w' ''pickles/messages.pickle'' = Some (pickle_dumps sample_platform (d ! 1))
           \<and> files w' ''pickles/dates.pickle'' = Some (pickle_dumps sample_platform (d ! 2))
           \<and> files w' ''pickles/times.pickle'' = Some (pickle_dumps sample_platform (d ! 3))
           \<and> stdout w' = stdout sample_world @
               [''[INFO]: Extracting data from '' @ ''171.html'',
                ''[INFO]: Data extracted from '' @ ''171.html'',
                ''[INFO]: Extracting data from '' @ ''171.html'',
                ''[INFO]: Data extracted from '' @ ''171.html'',
                ''[INFO]: pickles/senders.pickle saved'',
                ''[INFO]: pickles/messages.pickle saved'',
                ''[INFO]: pickles/dates.pickle saved'',
                ''[INFO]: pickles/times.pickle saved''])"
proof -
  have f: "files sample_world ''171.html'' = Some ''<html>''"
    by (simp add: sample_world_def)
  obtain fb w' where h: "init sample_platform ''171.html'' True sample_world = Inr (fb, w')"
    by (simp add: init_def sample_extract_any f pickle_file_names_def save_pickle_def
        print_def sample_world_def)
  from init_get_data[OF h] h show ?thesis by blast
qed

text \<open>
  C10, as stated, fails for one aggregate: \<^verbatim>\<open>find_most_active_day\<close> is a static method
  and never reads \<^verbatim>\<open>total_msgs\<close>. On the sample cache, whose senders are 3 and whose dates
  are 2, it divides 86400 by the 2 messages of the day and prints 43200.00; by the senders
  length it would be 28800.00.
\<close>

theorem most_active_day_counterexample:
  "map_sum id fst (init sample_platform ''171.html'' False sample_cache)
     = Inr \<lparr>data = [[''Al'', ''Bo'', ''Al''], [''hi''], [''15/03/23'', ''15/03/23''], []],
            total_msgs = 3\<rparr>
   \<and> find_most_active_day [''15/03/23'', ''15/03/23'']
       \<lparr>files = Map.empty, unwritable = Map.empty, stdout = []\<rparr>
     = Inr \<lparr>files = Map.empty, unwritable = Map.empty,
            stdout = [''[INFO]: Most active day was 15/03/23 with 2 messages sent. ''
                      @ ''Thats a message every 43200.00 seconds!'']\<rparr>
   \<and> format_2f (86400 / 3) = ''28800.00''"
  by (simp add: sample_cache_init sample_most_active_day format_2f_28800 print_def)

text \<open>
  C10, amended. In cache-load mode the constructor returns whatever the lengths of the four
  loaded sequences are, and \<^verbatim>\<open>total_msgs\<close> is the length of the senders alone. The
  aggregates that read the total use that length: the percentage of a sender and the
  average words per message divide by it, and the average messages per unit of time
  divides it by the interval.
\<close>

theorem init_load_total:
  assumes "files w ''pickles/senders.pickle'' = Some r0" and "pickle_loads pf r0 = Inr senders"
    and "files w ''pickles/messages.pickle'' = Some r1" and "pickle_loads pf r1 = Inr messages"
    and "files w ''pickles/dates.pickle'' = Some r2" and "pickle_loads pf r2 = Inr dates"
    and "files w ''pickles/times.pickle'' = Some r3" and "pickle_loads pf r3 = Inr tms"
  shows "\<exists>fb w'. init pf html_file False w = Inr (fb, w')
           \<and> data fb = [senders, messages, dates, tms]
           \<and> total_msgs fb = length senders
           \<and> msgs_percentage fb c
               = (if senders = [] then Inl ZeroDivisionError
                  else Inr (of_nat c / of_nat (length senders) * 100))
           \<and> avg_words_per_msg fb messages
               = (if senders = [] then Inl ZeroDivisionError
                  else Inr (of_nat (total_words messages) / of_nat (length senders)))
           \<and> avg_messages_per_day fb interval
               = (if interval = 0 then Inl ZeroDivisionError
                  else Inr (of_nat (length senders) / of_int interval))"
  by (simp add: init_def load_all_four[OF assms] msgs_percentage_def avg_words_per_msg_def
      avg_messages_per_day_def)

theorem init_load_total_witness:
  "\<exists>fb w'. init sample_platform ''171.html'' False sample_cache = Inr (fb, w')
           \<and> data fb = [[''Al'', ''Bo'', ''Al''], [''hi''], [''15/03/23'', ''15/03/23''], []]
           \<and> total_msgs fb = length [''Al'', ''Bo'', ''Al'']
           \<and> msgs_percentage fb 2 = Inr (of_nat 2 / of_nat (length [''Al'', ''Bo'', ''Al'']) * 100)
           \<and> avg_words_per_msg fb [''hi'']
               = Inr (of_nat (total_words [''hi'']) / of_nat (length [''Al'', ''Bo'', ''Al'']))
           \<and> avg_messages_per_day fb 7 = Inr (of_nat (length [''Al'', ''Bo'', ''Al'']) / of_int 7)"
  using init_load_total[of sample_cache "sample_dumps [''Al'', ''Bo'', ''Al'']" sample_platform
      "[''Al'', ''Bo'', ''Al'']" "sample_dumps [''hi'']" "[''hi'']"
      "sample_dumps [''15/03/23'', ''15/03/23'']" "[''15/03/23'', ''15/03/23'']"
      "sample_dumps []" "[]" "''171.html''" 2 7]
  by (simp add: sample_cache_def sample_platform_def sample_codec_roundtrip)

end
